theory Spec2Isabelle
  imports Complex_Main "HOL-Library.Multiset"
begin

section \<open>Errors\<close>

text \<open>
  The exceptions that the modelled functions raise, or that a claim distinguishes them
  from: \<^verbatim>\<open>exceptions.BenchmarkAssertionError\<close>, \<^verbatim>\<open>exceptions.SystemSetupError\<close>,
  \<^verbatim>\<open>exceptions.ConfigError\<close> (the class raised for configuration problems, caught
  separately in \<^verbatim>\<open>AsyncExecutor._get_client_options\<close>), and Python's own
  \<^verbatim>\<open>UnboundLocalError\<close>. A function that can raise returns \<open>error + 'a\<close>, with \<open>Inl\<close>
  for the exception.
\<close>

datatype error =
    is_BenchmarkAssertionError: BenchmarkAssertionError string
  | is_SystemSetupError: SystemSetupError string
  | is_ConfigError: ConfigError string
  | is_UnboundLocalError: UnboundLocalError string

section \<open>Progress controllers and the schedule factory\<close>

text \<open>
  \<^verbatim>\<open>class TimePeriodBased\<close> and \<^verbatim>\<open>class IterationBased\<close> of
  \<^verbatim>\<open>worker_coordinator.py\<close>. Python's \<^verbatim>\<open>None\<close> is \<open>None\<close>. Iteration counts are
  Python integers (\<open>int\<close>, unbounded). Time periods are Python numbers, possibly floats:
  their type \<open>'a\<close> is left abstract, and the duration is the sum that type's own \<open>+\<close>
  gives, so that nothing is assumed about how the addition rounds.
\<close>

record 'a TimePeriodBased =
  tp_warmup_time_period :: "'a option"
  tp_time_period :: "'a option"
  tp_duration :: "'a option"
  tp_start :: "'a option"
  tp_now :: "'a option"

record IterationBased =
  ib_warmup_iterations :: "int option"
  ib_iterations :: "int option"
  ib_total_iterations :: "int option"
  ib_it :: "int option"

definition TimePeriodBased_init :: "'a::plus option \<Rightarrow> 'a option \<Rightarrow> 'a TimePeriodBased" where
  "TimePeriodBased_init warmup_time_period time_period =
     \<lparr> tp_warmup_time_period = warmup_time_period,
       tp_time_period = time_period,
       tp_duration =
         (case (warmup_time_period, time_period) of
            (Some w, Some t) \<Rightarrow> Some (w + t)
          | _ \<Rightarrow> None),
       tp_start = None,
       tp_now = None \<rparr>"

definition IterationBased_init :: "int option \<Rightarrow> int option \<Rightarrow> error + IterationBased" where
  "IterationBased_init warmup_iterations iterations =
     (case (warmup_iterations, iterations) of
        (Some w, Some i) \<Rightarrow>
          (if w + i = 0
           then Inl (BenchmarkAssertionError ''Operation must run at least for one iteration.'')
           else Inr \<lparr> ib_warmup_iterations = warmup_iterations, ib_iterations = iterations,
                      ib_total_iterations = Some (w + i), ib_it = None \<rparr>)
      | _ \<Rightarrow>
          Inr \<lparr> ib_warmup_iterations = warmup_iterations, ib_iterations = iterations,
                 ib_total_iterations = None, ib_it = None \<rparr>)"

text \<open>The \<^verbatim>\<open>infinite\<close> property of the two controllers.\<close>

definition tp_infinite :: "'a TimePeriodBased \<Rightarrow> bool" where
  "tp_infinite c = (tp_time_period c = None)"

definition ib_infinite :: "IterationBased \<Rightarrow> bool" where
  "ib_infinite c = (ib_iterations c = None)"

datatype 'a progress_control =
    TimePeriodBasedControl "'a TimePeriodBased"
  | IterationBasedControl IterationBased

text \<open>
  What \<^verbatim>\<open>schedule_for\<close> and \<^verbatim>\<open>requires_time_period_schedule\<close> read of a task, of the
  runner (\<^verbatim>\<open>task_runner.completed\<close>, which is \<^verbatim>\<open>None\<close> when the runner has no
  completion signal) and of the partitioned parameter source (\<^verbatim>\<open>params.infinite\<close>).
\<close>

record 'a task =
  warmup_time_period :: "'a option"
  time_period :: "'a option"
  warmup_iterations :: "int option"
  iterations :: "int option"

record runner =
  completed :: "bool option"

record param_source =
  infinite :: bool

definition requires_time_period_schedule :: "'a task \<Rightarrow> runner \<Rightarrow> param_source \<Rightarrow> bool" where
  "requires_time_period_schedule t task_runner params =
     (if warmup_time_period t \<noteq> None \<or> time_period t \<noteq> None then True
      else if warmup_iterations t \<noteq> None \<or> iterations t \<noteq> None then False
      else if completed task_runner \<noteq> None then True
      else \<not> infinite params)"

text \<open>
  Python truthiness of an optional number: \<^verbatim>\<open>x if x else 0\<close> is \<open>0\<close> for \<^verbatim>\<open>None\<close> and
  for zero.
\<close>

definition truthy :: "'a::zero option \<Rightarrow> bool" where
  "truthy x = (case x of None \<Rightarrow> False | Some v \<Rightarrow> v \<noteq> 0)"

definition or_zero :: "'a::zero option \<Rightarrow> 'a" where
  "or_zero x = (if truthy x then the x else 0)"

text \<open>
  \<^verbatim>\<open>schedule_for\<close>, restricted to the progress controller it constructs (the
  \<^verbatim>\<open>loop_control\<close> handed to \<^verbatim>\<open>ScheduleHandle\<close>); the scheduler, the runner lookup
  and the logging do not influence it.
\<close>

definition schedule_for ::
  "'a::{zero,plus} task \<Rightarrow> runner \<Rightarrow> param_source \<Rightarrow> error + 'a progress_control" where
  "schedule_for t runner_for_op params_for_op =
     (if requires_time_period_schedule t runner_for_op params_for_op
      then Inr (TimePeriodBasedControl
                  (TimePeriodBased_init (Some (or_zero (warmup_time_period t))) (time_period t)))
      else
        (let iters =
               (if truthy (iterations t) then iterations t
                else if infinite params_for_op then Some 1
                else None)
         in case IterationBased_init (Some (or_zero (warmup_iterations t))) iters of
              Inl e \<Rightarrow> Inl e
            | Inr c \<Rightarrow> Inr (IterationBasedControl c)))"

text \<open>Two concrete tasks used below: one that specifies nothing, one that asks for zero
  warmup iterations and zero iterations.\<close>

definition unspecified_task :: "int task" where
  "unspecified_task =
     \<lparr> warmup_time_period = None, time_period = None,
       warmup_iterations = None, iterations = None \<rparr>"


section \<open>The asynchronous executor\<close>

text \<open>
  \<^verbatim>\<open>execute_single\<close>, \<^verbatim>\<open>AsyncExecutor._execute_request\<close>,
  \<^verbatim>\<open>AsyncExecutor._process_results\<close> and the body of the loop of
  \<^verbatim>\<open>AsyncExecutor.__call__\<close>.

  Times and operation counts are Python numbers (floats from \<^verbatim>\<open>time.perf_counter()\<close>,
  integers or floats from runners). Their type \<open>'r\<close> is left abstract: the model applies
  that type's own \<open>+\<close>, \<open>-\<close> and \<open><\<close> where the code applies Python's, and assumes no
  law of arithmetic.

  Request meta-data is a Python \<^verbatim>\<open>dict\<close> with string keys, kept as an association list
  in insertion order with one entry per key.
\<close>

datatype 'r meta_value = MBool bool | MStr string | MInt int | MNum 'r | MNone

type_synonym 'r meta = "(string \<times> 'r meta_value) list"

text \<open>Python truthiness of a value, and \<^verbatim>\<open>d.get(k)\<close> read as a condition.\<close>

fun value_truth :: "'r::zero meta_value \<Rightarrow> bool" where
  "value_truth (MBool b) = b"
| "value_truth (MStr s) = (s \<noteq> [])"
| "value_truth (MInt i) = (i \<noteq> 0)"
| "value_truth (MNum x) = (x \<noteq> 0)"
| "value_truth MNone = False"

definition meta_truthy :: "'r::zero meta \<Rightarrow> string \<Rightarrow> bool" where
  "meta_truthy m k = (case map_of m k of None \<Rightarrow> False | Some v \<Rightarrow> value_truth v)"

text \<open>\<^verbatim>\<open>d[k] = v\<close> and \<^verbatim>\<open>d.pop(k, None)\<close> on such a dict.\<close>

fun dict_set :: "('k \<times> 'v) list \<Rightarrow> 'k \<Rightarrow> 'v \<Rightarrow> ('k \<times> 'v) list" where
  "dict_set [] k v = [(k, v)]"
| "dict_set ((k', v') # d) k v = (if k' = k then (k, v) # d else (k', v') # dict_set d k v)"

definition dict_pop :: "('k \<times> 'v) list \<Rightarrow> 'k \<Rightarrow> 'v option \<times> ('k \<times> 'v) list" where
  "dict_pop d k = (map_of d k, filter (\<lambda>kv. fst kv \<noteq> k) d)"

subsection \<open>\<^verbatim>\<open>execute_single\<close>\<close>

text \<open>
  What awaiting the runner can do: return a pair \<^verbatim>\<open>(total_ops, unit)\<close>, return a dict
  (given here as its \<^verbatim>\<open>weight\<close> and \<^verbatim>\<open>unit\<close> entries, when present, and its other
  entries), return anything else, raise an \<^verbatim>\<open>opensearchpy.TransportError\<close>, or raise
  a \<^verbatim>\<open>KeyError\<close>. Of a transport error the code reads: whether its class is exactly
  \<^verbatim>\<open>ConnectionError\<close>, its status code when that is an integer, whether it is a
  \<^verbatim>\<open>ConnectionTimeout\<close>, its \<^verbatim>\<open>info\<close> and its \<^verbatim>\<open>error\<close> (as text).
\<close>

record transport_error =
  te_is_connection_error :: bool
  te_status_code :: "int option"
  te_is_connection_timeout :: bool
  te_info :: string
  te_error :: string

datatype 'r runner_outcome =
    ReturnsTuple 'r string
  | ReturnsDict "'r option" "string option" "'r meta"
  | ReturnsOther
  | RaisesTransportError transport_error
  | RaisesKeyError string

text \<open>
  The runner is a function from the request parameters to what awaiting it does. Since
  calling it is the effect the claims are about (it is what contacts the cluster), the
  model returns, next to the result, the list of parameters the runner was called with.
\<close>

definition transport_meta :: "transport_error \<Rightarrow> 'r meta" where
  "transport_meta e =
     (let m0 = [(''success'', MBool False), (''error-type'', MStr ''transport'')];
          m1 = (case te_status_code e of
                  Some c \<Rightarrow> dict_set m0 ''http-status'' (MInt c) | None \<Rightarrow> m0)
      in if te_is_connection_timeout e
         then dict_set m1 ''error-description'' (MStr ''network connection timed out'')
         else if te_info e \<noteq> []
         then dict_set m1 ''error-description''
                (MStr (te_error e @ '' ('' @ te_info e @ '')''))
         else dict_set m1 ''error-description'' (MStr (te_error e)))"

definition error_message :: "'r meta \<Rightarrow> string" where
  "error_message m =
     (let msg = ''Request returned an error. Error type: '' @
                  (case map_of m ''error-type'' of Some (MStr s) \<Rightarrow> s | _ \<Rightarrow> ''Unknown'')
      in case map_of m ''error-description'' of
           Some (MStr d) \<Rightarrow> (if d \<noteq> [] then msg @ '', Description: '' @ d else msg)
         | _ \<Rightarrow> msg)"

definition check_success ::
  "string \<Rightarrow> bool \<Rightarrow> bool \<Rightarrow> 'r \<times> string \<times> 'r::zero meta \<Rightarrow> error + ('r \<times> string \<times> 'r meta)" where
  "check_success on_error fatal_error redline_enabled res =
     (case res of (total_ops, total_ops_unit, request_meta_data) \<Rightarrow>
        if \<not> meta_truthy request_meta_data ''success''
           \<and> (on_error = ''abort'' \<or> fatal_error) \<and> \<not> redline_enabled
        then Inl (BenchmarkAssertionError (error_message request_meta_data))
        else Inr res)"

definition execute_single ::
  "('p \<Rightarrow> 'r runner_outcome) \<Rightarrow> 'p \<Rightarrow> string \<Rightarrow> bool \<Rightarrow> bool
     \<Rightarrow> 'p list \<times> (error + ('r::{zero,one} \<times> string \<times> 'r meta))" where
  "execute_single runner params on_error redline_enabled client_enabled =
     (if client_enabled then
        ([params],
         case runner params of
           ReturnsTuple total_ops total_ops_unit \<Rightarrow>
             check_success on_error False redline_enabled
               (total_ops, total_ops_unit, [(''success'', MBool True)])
         | ReturnsDict weight unit rest \<Rightarrow>
             check_success on_error False redline_enabled
               (case weight of Some w \<Rightarrow> w | None \<Rightarrow> 1,
                case unit of Some u \<Rightarrow> u | None \<Rightarrow> ''ops'',
                if map_of rest ''success'' = None
                then dict_set rest ''success'' (MBool True) else rest)
         | ReturnsOther \<Rightarrow>
             check_success on_error False redline_enabled
               (1, ''ops'', [(''success'', MBool True)])
         | RaisesTransportError e \<Rightarrow>
             check_success on_error (te_is_connection_error e) redline_enabled
               (0, ''ops'', transport_meta e)
         | RaisesKeyError k \<Rightarrow>
             (if \<not> redline_enabled
              then Inl (SystemSetupError (''Cannot execute runner. Error: '' @ k))
              else Inl (UnboundLocalError ''request_meta_data'')))
      else
        ([], Inr (0, ''ops'',
                  [(''success'', MBool True), (''skipped_request'', MBool True)])))"

subsection \<open>\<^verbatim>\<open>AsyncExecutor._execute_request\<close>\<close>

text \<open>
  What one request observes of its environment: the clock readings
  (\<^verbatim>\<open>time.time()\<close> and three \<^verbatim>\<open>time.perf_counter()\<close> calls), whether
  \<^verbatim>\<open>asyncio.wait_for\<close> timed out, and the four timings the request context holds
  afterwards (\<^verbatim>\<open>None\<close> when one was not captured).
\<close>

record 'r request_env =
  env_absolute_processing_start :: 'r
  env_processing_start :: 'r
  env_now :: 'r
  env_processing_end :: 'r
  env_timed_out :: bool
  env_request_start :: "'r option"
  env_request_end :: "'r option"
  env_client_request_start :: "'r option"
  env_client_request_end :: "'r option"

record 'r result_data =
  rd_absolute_processing_start :: 'r
  rd_processing_start :: 'r
  rd_processing_end :: 'r
  rd_request_start :: 'r
  rd_request_end :: 'r
  rd_client_request_start :: 'r
  rd_client_request_end :: 'r
  rd_total_ops :: 'r
  rd_total_ops_unit :: string
  rd_request_meta_data :: "'r meta"
  rd_throughput_throttled :: bool

datatype SampleType = Warmup | Normal

text \<open>\<^verbatim>\<open>DefaultSample\<close> and \<^verbatim>\<open>ProfileMetricsSample\<close>, as the samplers construct them.\<close>

record 'r sample =
  s_client_id :: nat
  s_absolute_time :: 'r
  s_request_start :: 'r
  s_task_start :: 'r
  s_task :: string
  s_sample_type :: SampleType
  s_request_meta_data :: "'r meta"
  s_latency :: 'r
  s_service_time :: 'r
  s_client_processing_time :: 'r
  s_processing_time :: 'r
  s_throughput :: "'r meta_value option"
  s_total_ops :: 'r
  s_total_ops_unit :: string
  s_time_period :: 'r
  s_percent_completed :: "'r option"
  s_dependent_timing :: "'r meta_value option"

record 'r profile_sample =
  ps_client_id :: nat
  ps_absolute_time :: 'r
  ps_request_start :: 'r
  ps_task_start :: 'r
  ps_task :: string
  ps_sample_type :: SampleType
  ps_request_meta_data :: "'r meta"
  ps_time_period :: 'r
  ps_percent_completed :: "'r option"
  ps_dependent_timing :: "'r meta_value option"

text \<open>
  A bounded queue with \<^verbatim>\<open>put_nowait\<close>: \<^verbatim>\<open>maxsize = 0\<close> is unbounded; a put on a full
  queue raises \<^verbatim>\<open>queue.Full\<close>, which every caller here catches and drops the item.
\<close>

record 'a bounded_queue =
  q_items :: "'a list"
  q_maxsize :: nat

definition put_nowait_or_drop :: "'a bounded_queue \<Rightarrow> 'a \<Rightarrow> 'a bounded_queue" where
  "put_nowait_or_drop q x =
     (if 0 < q_maxsize q \<and> q_maxsize q \<le> length (q_items q) then q
      else q\<lparr>q_items := q_items q @ [x]\<rparr>)"

record 'r error_info =
  ei_client_id :: nat
  ei_task :: string
  ei_error_details :: "'r meta"

text \<open>
  The executor's state, as far as these methods read or write it. \<^verbatim>\<open>ex_after_requests\<close>
  logs the calls of \<^verbatim>\<open>schedule_handle.after_request\<close>; \<^verbatim>\<open>ex_complete\<close> is
  \<^verbatim>\<open>self.complete.is_set()\<close>; \<^verbatim>\<open>ex_runner_completed\<close> and
  \<^verbatim>\<open>ex_runner_percent_completed\<close> are what \<^verbatim>\<open>getattr(self.runner, ...)\<close> yields
  (\<^verbatim>\<open>False\<close> and \<^verbatim>\<open>None\<close> when the runner has no such attribute).
\<close>

record 'r executor =
  ex_client_id :: nat
  ex_task :: string
  ex_on_error :: string
  ex_redline_enabled :: bool
  ex_expected_scheduled_time :: 'r
  ex_sample_type :: SampleType
  ex_task_completes_parent :: bool
  ex_complete :: bool
  ex_runner_completed :: bool
  ex_runner_percent_completed :: "'r option"
  ex_shared_states :: "(nat \<times> bool) list option"
  ex_error_queue :: "'r error_info bounded_queue option"
  ex_sampler :: "'r sample bounded_queue"
  ex_sampler_start_timestamp :: 'r
  ex_profile_sampler :: "'r profile_sample bounded_queue"
  ex_after_requests :: "('r \<times> 'r \<times> string \<times> 'r meta) list"
  ex_runner_calls :: nat

definition report_error :: "'r executor \<Rightarrow> 'r error_info \<Rightarrow> 'r executor" where
  "report_error ex info =
     (case ex_error_queue ex of
        None \<Rightarrow> ex
      | Some q \<Rightarrow> ex\<lparr>ex_error_queue := Some (put_nowait_or_drop q info)\<rparr>)"

text \<open>
  \<^verbatim>\<open>_execute_request\<close>. The sleep until the scheduled time, the scheduler's
  \<^verbatim>\<open>before_request\<close> hook and the choice of the request context manager are left out:
  they decide none of the values below. An exception of \<^verbatim>\<open>execute_single\<close> other than
  the timeout propagates. The fallback of the code replaces exactly the timings that are
  \<^verbatim>\<open>None\<close> (by \<^verbatim>\<open>processing_start\<close> for the two starts, by a fresh clock reading for
  the two ends), and without the fallback none is \<^verbatim>\<open>None\<close>; \<open>or_else\<close> writes both.
\<close>

definition request_outcome ::
  "'r::{zero,one} executor \<Rightarrow> ('p \<Rightarrow> 'r runner_outcome) \<Rightarrow> 'p \<Rightarrow> bool \<Rightarrow> 'r request_env
     \<Rightarrow> 'p list \<times> (error + ('r \<times> string \<times> 'r meta))" where
  "request_outcome ex runner params client_state env =
     (let (calls, outcome) =
            execute_single runner params (ex_on_error ex) (ex_redline_enabled ex) client_state
      in (calls,
          if env_timed_out env
          then Inr (0, ''ops'',
                    [(''success'', MBool False), (''error-type'', MStr ''timeout'')])
          else outcome))"

definition needs_fallback :: "'r::zero request_env \<Rightarrow> 'r meta \<Rightarrow> bool" where
  "needs_fallback env request_meta_data =
     (\<not> meta_truthy request_meta_data ''success''
      \<or> env_request_start env = None \<or> env_request_end env = None
      \<or> env_client_request_start env = None \<or> env_client_request_end env = None)"

definition or_else :: "'a option \<Rightarrow> 'a \<Rightarrow> 'a" where
  "or_else x d = (case x of Some v \<Rightarrow> v | None \<Rightarrow> d)"

definition result_of ::
  "'r request_env \<Rightarrow> 'r \<Rightarrow> string \<Rightarrow> 'r meta \<Rightarrow> bool \<Rightarrow> 'r result_data" where
  "result_of env total_ops total_ops_unit request_meta_data throughput_throttled =
     \<lparr> rd_absolute_processing_start = env_absolute_processing_start env,
       rd_processing_start = env_processing_start env,
       rd_processing_end = env_processing_end env,
       rd_request_start = or_else (env_request_start env) (env_processing_start env),
       rd_request_end = or_else (env_request_end env) (env_now env),
       rd_client_request_start =
         or_else (env_client_request_start env) (env_processing_start env),
       rd_client_request_end = or_else (env_client_request_end env) (env_now env),
       rd_total_ops = total_ops,
       rd_total_ops_unit = total_ops_unit,
       rd_request_meta_data = request_meta_data,
       rd_throughput_throttled = throughput_throttled \<rparr>"

definition execute_request ::
  "'r::{zero,one,ord} executor \<Rightarrow> ('p \<Rightarrow> 'r runner_outcome) \<Rightarrow> 'p \<Rightarrow> 'r \<Rightarrow> 'r \<Rightarrow> bool
     \<Rightarrow> 'r request_env \<Rightarrow> error + ('r result_data \<times> 'r executor)" where
  "execute_request ex runner params expected_scheduled_time total_start client_state env =
     (let throughput_throttled = (0 < expected_scheduled_time);
          (calls, outcome) = request_outcome ex runner params client_state env;
          ex1 = ex\<lparr>ex_runner_calls := ex_runner_calls ex + length calls\<rparr>
      in case outcome of
           Inl e \<Rightarrow> Inl e
         | Inr (total_ops, total_ops_unit, request_meta_data) \<Rightarrow>
             Inr (result_of env total_ops total_ops_unit request_meta_data throughput_throttled,
                  if needs_fallback env request_meta_data
                     \<and> \<not> meta_truthy request_meta_data ''skipped''
                  then report_error ex1
                         \<lparr> ei_client_id = ex_client_id ex, ei_task = ex_task ex,
                           ei_error_details = request_meta_data \<rparr>
                  else ex1))"

subsection \<open>\<^verbatim>\<open>AsyncExecutor._process_results\<close>\<close>

definition sampler_add :: "'r executor \<Rightarrow> 'r sample \<Rightarrow> 'r executor" where
  "sampler_add ex s = ex\<lparr>ex_sampler := put_nowait_or_drop (ex_sampler ex) s\<rparr>"

definition profile_sampler_add :: "'r executor \<Rightarrow> 'r profile_sample \<Rightarrow> 'r executor" where
  "profile_sampler_add ex s =
     ex\<lparr>ex_profile_sampler := put_nowait_or_drop (ex_profile_sampler ex) s\<rparr>"

definition after_request ::
  "'r executor \<Rightarrow> 'r \<Rightarrow> 'r \<Rightarrow> string \<Rightarrow> 'r meta \<Rightarrow> 'r executor" where
  "after_request ex now weight unit request_meta_data =
     ex\<lparr>ex_after_requests := ex_after_requests ex @ [(now, weight, unit, request_meta_data)]\<rparr>"

text \<open>
  The locals of \<^verbatim>\<open>_process_results\<close>. \<^verbatim>\<open>throughput\<close> and \<^verbatim>\<open>dependent_timing\<close> are
  popped from the meta-data dict (the first after \<^verbatim>\<open>after_request\<close> has been called
  with the dict, the second while the arguments of \<^verbatim>\<open>add\<close> are evaluated), so the
  sample holds the dict without them.
\<close>

definition service_time :: "'r::minus result_data \<Rightarrow> 'r" where
  "service_time rd = rd_request_end rd - rd_request_start rd"

definition client_processing_time :: "'r::minus result_data \<Rightarrow> 'r" where
  "client_processing_time rd =
     (rd_client_request_end rd - rd_client_request_start rd) - service_time rd"

definition processing_time :: "'r::minus result_data \<Rightarrow> 'r" where
  "processing_time rd = rd_processing_end rd - rd_processing_start rd"

definition latency :: "'r::{plus,minus} executor \<Rightarrow> 'r result_data \<Rightarrow> 'r \<Rightarrow> 'r" where
  "latency ex rd total_start =
     (if rd_throughput_throttled rd
      then rd_request_end rd - (total_start + ex_expected_scheduled_time ex)
      else service_time rd)"

definition is_completed :: "'r executor \<Rightarrow> bool" where
  "is_completed ex =
     (if ex_task_completes_parent ex then ex_runner_completed ex
      else ex_complete ex \<or> ex_runner_completed ex)"

definition progress :: "'r::one executor \<Rightarrow> 'r option \<Rightarrow> 'r option" where
  "progress ex percent_completed =
     (if is_completed ex then Some 1
      else if ex_runner_percent_completed ex \<noteq> None then ex_runner_percent_completed ex
      else percent_completed)"

definition sample_meta :: "'r meta \<Rightarrow> 'r meta" where
  "sample_meta m = snd (dict_pop (snd (dict_pop m ''throughput'')) ''dependent_timing'')"

definition default_sample ::
  "'r::{one,plus,minus} executor \<Rightarrow> 'r result_data \<Rightarrow> 'r \<Rightarrow> 'r option \<Rightarrow> 'r sample" where
  "default_sample ex rd total_start percent_completed =
     \<lparr> s_client_id = ex_client_id ex,
       s_absolute_time = rd_absolute_processing_start rd,
       s_request_start = rd_request_start rd,
       s_task_start = ex_sampler_start_timestamp ex,
       s_task = ex_task ex,
       s_sample_type = ex_sample_type ex,
       s_request_meta_data = sample_meta (rd_request_meta_data rd),
       s_latency = latency ex rd total_start,
       s_service_time = service_time rd,
       s_client_processing_time = client_processing_time rd,
       s_processing_time = processing_time rd,
       s_throughput = fst (dict_pop (rd_request_meta_data rd) ''throughput''),
       s_total_ops = rd_total_ops rd,
       s_total_ops_unit = rd_total_ops_unit rd,
       s_time_period = rd_request_end rd - total_start,
       s_percent_completed = progress ex percent_completed,
       s_dependent_timing =
         fst (dict_pop (snd (dict_pop (rd_request_meta_data rd) ''throughput''))
                ''dependent_timing'') \<rparr>"

definition profile_metrics_sample ::
  "'r::{one,minus} executor \<Rightarrow> 'r result_data \<Rightarrow> 'r \<Rightarrow> 'r option \<Rightarrow> 'r profile_sample" where
  "profile_metrics_sample ex rd total_start percent_completed =
     \<lparr> ps_client_id = ex_client_id ex,
       ps_absolute_time = rd_absolute_processing_start rd,
       ps_request_start = rd_request_start rd,
       ps_task_start = ex_sampler_start_timestamp ex,
       ps_task = ex_task ex,
       ps_sample_type = ex_sample_type ex,
       ps_request_meta_data = sample_meta (rd_request_meta_data rd),
       ps_time_period = rd_request_end rd - total_start,
       ps_percent_completed = progress ex percent_completed,
       ps_dependent_timing =
         fst (dict_pop (snd (dict_pop (rd_request_meta_data rd) ''throughput''))
                ''dependent_timing'') \<rparr>"

definition process_results ::
  "'r::{zero,one,plus,minus} executor \<Rightarrow> 'r result_data \<Rightarrow> 'r \<Rightarrow> bool \<Rightarrow> 'r option \<Rightarrow> bool
     \<Rightarrow> bool \<times> 'r executor" where
  "process_results ex rd total_start client_state percent_completed add_profile_metric_sample =
     (if meta_truthy (rd_request_meta_data rd) ''skipped_request''
      then (ex_complete ex,
            after_request ex (rd_processing_end rd) 0 ''ops''
              [(''success'', MBool False), (''skipped'', MBool True)])
      else
        (let ex1 = after_request ex (rd_processing_end rd) (rd_total_ops rd)
                     (rd_total_ops_unit rd) (rd_request_meta_data rd)
         in (is_completed ex,
             if client_state then
               (if add_profile_metric_sample
                then profile_sampler_add ex1
                       (profile_metrics_sample ex rd total_start percent_completed)
                else sampler_add ex1 (default_sample ex rd total_start percent_completed))
             else ex1)))"

subsection \<open>One iteration of the loop of \<^verbatim>\<open>AsyncExecutor.__call__\<close>\<close>

text \<open>
  The loop body after the cancellation check: the executor stores the scheduled offset
  and the sample type, reads the client's shared pause state (\<^verbatim>\<open>True\<close> when there is
  no shared dict or no entry for the client), executes the request and processes the
  result. Whether the sample goes to the profile sampler is computed by the loop from
  the request parameters and is an argument here. The result is \<^verbatim>\<open>completed\<close> and the
  new state, or the exception that leaves the loop.
\<close>

definition client_state_of :: "'r executor \<Rightarrow> bool" where
  "client_state_of ex =
     (case ex_shared_states ex of
        None \<Rightarrow> True
      | Some d \<Rightarrow> (case map_of d (ex_client_id ex) of None \<Rightarrow> True | Some b \<Rightarrow> b))"

definition iteration ::
  "'r::{zero,one,plus,minus,ord} executor \<Rightarrow> ('p \<Rightarrow> 'r runner_outcome) \<Rightarrow> 'p
     \<Rightarrow> 'r \<Rightarrow> SampleType \<Rightarrow> 'r option \<Rightarrow> bool \<Rightarrow> 'r \<Rightarrow> 'r request_env
     \<Rightarrow> error + (bool \<times> 'r executor)" where
  "iteration ex runner params expected_scheduled_time sample_type percent_completed
     add_profile_metric_sample total_start env =
     (let ex0 = ex\<lparr>ex_expected_scheduled_time := expected_scheduled_time,
                   ex_sample_type := sample_type\<rparr>;
          client_state = client_state_of ex0
      in case execute_request ex0 runner params expected_scheduled_time total_start
                client_state env of
           Inl e \<Rightarrow> Inl e
         | Inr (result_data, ex1) \<Rightarrow>
             Inr (process_results ex1 result_data total_start client_state percent_completed
                    add_profile_metric_sample))"

subsection \<open>A concrete executor\<close>

text \<open>
  An executor for client 0 under redline, with the client active, and the same executor
  with the client paused; a runner that returns \<^verbatim>\<open>(1, "ops")\<close>; and the observations of
  one request. The numbers are small integers, on which Python's float arithmetic is
  exact.
\<close>

definition demo_executor :: "int executor" where
  "demo_executor =
     \<lparr> ex_client_id = 0, ex_task = ''search'', ex_on_error = ''continue'',
       ex_redline_enabled = True, ex_expected_scheduled_time = 0, ex_sample_type = Normal,
       ex_task_completes_parent = False, ex_complete = False,
       ex_runner_completed = False, ex_runner_percent_completed = None,
       ex_shared_states = Some [(0, True)],
       ex_error_queue = Some \<lparr>q_items = [], q_maxsize = 0\<rparr>,
       ex_sampler = \<lparr>q_items = [], q_maxsize = 16384\<rparr>,
       ex_sampler_start_timestamp = 10,
       ex_profile_sampler = \<lparr>q_items = [], q_maxsize = 16384\<rparr>,
       ex_after_requests = [], ex_runner_calls = 0 \<rparr>"

definition paused_executor :: "int executor" where
  "paused_executor = demo_executor\<lparr>ex_shared_states := Some [(0, False)]\<rparr>"

definition demo_runner :: "unit \<Rightarrow> int runner_outcome" where
  "demo_runner params = ReturnsTuple 1 ''ops''"

definition demo_env :: "int request_env" where
  "demo_env =
     \<lparr> env_absolute_processing_start = 1000, env_processing_start = 11, env_now = 17,
       env_processing_end = 17, env_timed_out = False,
       env_request_start = Some 13, env_request_end = Some 15,
       env_client_request_start = Some 12, env_client_request_end = Some 16 \<rparr>"

section \<open>The feedback actor\<close>

text \<open>
  \<^verbatim>\<open>class FeedbackActor\<close> of \<^verbatim>\<open>worker_coordinator.py\<close>, and the initialisation of the
  shared client states in \<^verbatim>\<open>WorkerCoordinator.start_benchmark\<close>.

  \<^verbatim>\<open>shared_client_states\<close> is a dict from worker ids to dicts from client ids to
  booleans. It is kept as an association list of association lists, in insertion order:
  the order is the one in which the code flattens it. A dict has one entry per key
  (\<open>wf_states\<close>).

  Clock readings, the scale-down percentage, the probe probability and the configured
  periods are Python numbers (floats, or integers compared with floats): their type \<open>'r\<close>
  is abstract, with the type's own \<open>-\<close> and \<open>\<le>\<close>. The number
  \<^verbatim>\<open>math.ceil(total_active_client_count * percentage_clients_to_scale_down)\<close> is computed
  in floating point; it is the parameter \<open>ceil_times\<close> of the model, applied to the two
  factors, so that no theorem depends on how the product rounds.

  \<^verbatim>\<open>max_error_threshold\<close> is an integer or \<^verbatim>\<open>float('inf')\<close>.
\<close>

datatype FeedbackState = NEUTRAL | SCALING_DOWN | SLEEP | SCALING_UP | DISABLED

datatype threshold = Finite int | Infinity

type_synonym client_states = "(nat \<times> bool) list"
type_synonym shared_states = "(nat \<times> client_states) list"

record ('r, 'e) FeedbackActor =
  state :: FeedbackState
  shared_client_states :: shared_states
  total_client_count :: int
  total_active_client_count :: int
  num_clients_to_scale_up :: int
  percentage_clients_to_scale_down :: 'r
  POST_SCALEDOWN_SECONDS :: 'r
  sleep_start_time :: 'r
  last_error_time :: 'r
  last_scaleup_time :: 'r
  max_stable_clients :: int
  error_queue :: "'e list"
  max_error_threshold :: threshold
  probe_probability :: 'r
  probe_interval :: int
  cycles_since_probe :: int
  last_cpu_check :: 'r
  max_cpu_threshold :: "'r option"
  cpu_check_interval :: "'r option"

subsection \<open>The shared client states\<close>

definition wf_states :: "shared_states \<Rightarrow> bool" where
  "wf_states sh =
     (distinct (map fst sh) \<and> (\<forall>wcs \<in> set sh. distinct (map fst (snd wcs))))"

text \<open>
  The flattened lists of \<^verbatim>\<open>scale_down\<close> (the active \<^verbatim>\<open>(worker_id, client_id)\<close> pairs) and
  of \<^verbatim>\<open>scale_up\<close> (the inactive ones), in the iteration order of the two nested loops.
\<close>

definition clients_with :: "bool \<Rightarrow> shared_states \<Rightarrow> (nat \<times> nat) list" where
  "clients_with status sh =
     concat (map (\<lambda>wcs. map (\<lambda>cb. (fst wcs, fst cb))
                           (filter (\<lambda>cb. snd cb = status) (snd wcs))) sh)"

definition all_active_clients :: "shared_states \<Rightarrow> (nat \<times> nat) list" where
  "all_active_clients sh = clients_with True sh"

definition inactive_clients :: "shared_states \<Rightarrow> (nat \<times> nat) list" where
  "inactive_clients sh = clients_with False sh"

text \<open>\<^verbatim>\<open>sum(len(state) for state in shared_client_states.values())\<close>.\<close>

definition count_clients :: "shared_states \<Rightarrow> nat" where
  "count_clients sh = sum_list (map (\<lambda>wcs. length (snd wcs)) sh)"

text \<open>
  \<^verbatim>\<open>shared_client_states[worker_id][client_id] = status\<close>, for a pair taken from the
  dict itself (the only use the code makes of it): the entry exists and is replaced.
\<close>

definition set_client_state :: "shared_states \<Rightarrow> nat \<times> nat \<Rightarrow> bool \<Rightarrow> shared_states" where
  "set_client_state sh wc status =
     map (\<lambda>wcs. (fst wcs,
                  if fst wcs = fst wc
                  then map (\<lambda>cb. (fst cb, if fst cb = snd wc then status else snd cb)) (snd wcs)
                  else snd wcs)) sh"

text \<open>
  \<^verbatim>\<open>start_benchmark\<close>: one dict per worker that has clients, numbered from 0, every
  client's entry \<^verbatim>\<open>False\<close>. The argument lists, per worker in order, the client ids the
  worker assignment gives it.
\<close>

fun initial_states_from :: "nat \<Rightarrow> nat list list \<Rightarrow> shared_states" where
  "initial_states_from worker_id [] = []"
| "initial_states_from worker_id (clients # rest) =
     (if 0 < length clients
      then (worker_id, map (\<lambda>client_id. (client_id, False)) clients)
             # initial_states_from (worker_id + 1) rest
      else initial_states_from worker_id rest)"

definition initial_states :: "nat list list \<Rightarrow> shared_states" where
  "initial_states workers = initial_states_from 0 workers"

subsection \<open>Construction and messages\<close>

text \<open>
  \<^verbatim>\<open>__init__\<close> reads the clock four times and subtracts the class constant
  \<^verbatim>\<open>POST_SCALEDOWN_SECONDS = 30\<close>; the float literals \<^verbatim>\<open>0.10\<close> and \<^verbatim>\<open>0.05\<close> and the
  constant are arguments, since the number type is abstract.
\<close>

record 'r init_env =
  clock_sleep_start :: 'r
  clock_last_error :: 'r
  clock_last_scaleup :: 'r
  clock_last_cpu_check :: 'r
  const_30 :: 'r
  const_0_10 :: 'r
  const_0_05 :: 'r

definition FeedbackActor_init :: "'r::minus init_env \<Rightarrow> ('r, 'e) FeedbackActor" where
  "FeedbackActor_init env =
     \<lparr> state = DISABLED,
       shared_client_states = [],
       total_client_count = 0,
       total_active_client_count = 0,
       num_clients_to_scale_up = 5,
       percentage_clients_to_scale_down = const_0_10 env,
       POST_SCALEDOWN_SECONDS = const_30 env,
       sleep_start_time = clock_sleep_start env,
       last_error_time = clock_last_error env - const_30 env,
       last_scaleup_time = clock_last_scaleup env - const_30 env,
       max_stable_clients = 0,
       error_queue = [],
       max_error_threshold = Finite 10000,
       probe_probability = const_0_05 env,
       probe_interval = 10,
       cycles_since_probe = 0,
       last_cpu_check = clock_last_cpu_check env,
       max_cpu_threshold = None,
       cpu_check_interval = None \<rparr>"

definition receiveMsg_StartFeedbackActor ::
  "shared_states \<Rightarrow> 'e list \<Rightarrow> ('r, 'e) FeedbackActor \<Rightarrow> ('r, 'e) FeedbackActor" where
  "receiveMsg_StartFeedbackActor shared_states queue a =
     a\<lparr> shared_client_states := shared_states,
        total_client_count := int (count_clients shared_states),
        error_queue := queue \<rparr>"

definition receiveMsg_EnableFeedbackScaling ::
  "('r, 'e) FeedbackActor \<Rightarrow> ('r, 'e) FeedbackActor" where
  "receiveMsg_EnableFeedbackScaling a =
     a\<lparr> max_error_threshold := Finite 10000, cycles_since_probe := 0, state := SCALING_UP \<rparr>"

definition receiveMsg_DisableFeedbackScaling ::
  "('r, 'e) FeedbackActor \<Rightarrow> ('r, 'e) FeedbackActor" where
  "receiveMsg_DisableFeedbackScaling a = a\<lparr> state := DISABLED \<rparr>"

definition receiveMsg_ResetErrorThreshold ::
  "('r, 'e) FeedbackActor \<Rightarrow> ('r, 'e) FeedbackActor" where
  "receiveMsg_ResetErrorThreshold a = a\<lparr> max_error_threshold := Infinity \<rparr>"

text \<open>
  \<^verbatim>\<open>ConfigureFeedbackScaling\<close>, as far as the modelled methods read what it sets. With a
  truthy \<^verbatim>\<open>cpu_max\<close> the actor creates a datastore client, which can fail.
\<close>

record 'r ConfigureFeedbackScaling =
  scale_step :: int
  scale_down_pct :: 'r
  sleep_seconds :: 'r
  cpu_max :: "'r option"
  msg_cpu_check_interval :: 'r

definition receiveMsg_ConfigureFeedbackScaling ::
  "'r::zero ConfigureFeedbackScaling \<Rightarrow> bool \<Rightarrow> ('r, 'e) FeedbackActor
     \<Rightarrow> error + ('r, 'e) FeedbackActor" where
  "receiveMsg_ConfigureFeedbackScaling msg os_client_created a =
     (let a1 = a\<lparr> num_clients_to_scale_up := scale_step msg,
                  percentage_clients_to_scale_down := scale_down_pct msg,
                  POST_SCALEDOWN_SECONDS := sleep_seconds msg,
                  cpu_check_interval := Some (msg_cpu_check_interval msg) \<rparr>
      in if truthy (cpu_max msg)
         then (if os_client_created
               then Inr (a1\<lparr> max_cpu_threshold := cpu_max msg \<rparr>)
               else Inl (SystemSetupError
                           ''OS Client could not be created for redline testing.''))
         else Inr a1)"

text \<open>
  \<^verbatim>\<open>receiveMsg_ActorExitRequest\<close>: the number the console message reports as
  \<^verbatim>\<open>Maximum stable client number reached\<close>, and the state afterwards.
\<close>

definition receiveMsg_ActorExitRequest ::
  "('r, 'e) FeedbackActor \<Rightarrow> int \<times> ('r, 'e) FeedbackActor" where
  "receiveMsg_ActorExitRequest a =
     (total_active_client_count a, a\<lparr> shared_client_states := [] \<rparr>)"

subsection \<open>\<^verbatim>\<open>scale_down\<close> and \<^verbatim>\<open>scale_up\<close>\<close>

text \<open>
  The random choices are arguments. \<^verbatim>\<open>random.sample(range(n), k)\<close> returns \<open>k\<close>
  distinct indices below \<open>n\<close> (\<open>is_sample\<close>); \<^verbatim>\<open>random.shuffle\<close> reorders the list,
  given here by the permutation of the indices it applies (\<open>is_shuffle\<close>);
  \<^verbatim>\<open>random.random()\<close> returns a number. The clock reading of the \<^verbatim>\<open>finally\<close> block is
  an argument too.
\<close>

definition is_sample :: "nat \<Rightarrow> nat \<Rightarrow> nat list \<Rightarrow> bool" where
  "is_sample n k picks = (length picks = k \<and> distinct picks \<and> (\<forall>i \<in> set picks. i < n))"

definition is_shuffle :: "nat \<Rightarrow> nat list \<Rightarrow> bool" where
  "is_shuffle n perm = (length perm = n \<and> distinct perm \<and> (\<forall>i \<in> set perm. i < n))"

definition pause_client ::
  "('r, 'e) FeedbackActor \<Rightarrow> nat \<times> nat \<Rightarrow> ('r, 'e) FeedbackActor" where
  "pause_client a wc =
     a\<lparr> shared_client_states := set_client_state (shared_client_states a) wc False,
        total_active_client_count := total_active_client_count a - 1 \<rparr>"

text \<open>
  \<^verbatim>\<open>clients_to_pause\<close> after the cap, and the clients chosen. The indices of a sample
  are below the length of the list, so the lookups are in range.
\<close>

definition clients_to_pause :: "(int \<Rightarrow> 'r \<Rightarrow> int) \<Rightarrow> ('r, 'e) FeedbackActor \<Rightarrow> int" where
  "clients_to_pause ceil_times a =
     ceil_times (total_active_client_count a) (percentage_clients_to_scale_down a)"

definition capped_clients_to_pause ::
  "(int \<Rightarrow> 'r \<Rightarrow> int) \<Rightarrow> ('r, 'e) FeedbackActor \<Rightarrow> nat" where
  "capped_clients_to_pause ceil_times a =
     nat (min (clients_to_pause ceil_times a)
              (int (length (all_active_clients (shared_client_states a)))))"

definition scale_down_body ::
  "(int \<Rightarrow> 'r \<Rightarrow> int) \<Rightarrow> nat list \<Rightarrow> ('r, 'e) FeedbackActor \<Rightarrow> ('r, 'e) FeedbackActor" where
  "scale_down_body ceil_times picks a =
     (let a1 = a\<lparr> max_error_threshold := Finite (total_active_client_count a) \<rparr>
      in if clients_to_pause ceil_times a \<le> 0 then a1
         else
           (let all_active = all_active_clients (shared_client_states a1);
                clients_to_pause_list = map (\<lambda>i. all_active ! i) picks
            in foldl pause_client a1 clients_to_pause_list))"

definition scale_down ::
  "(int \<Rightarrow> 'r \<Rightarrow> int) \<Rightarrow> nat list \<Rightarrow> 'r \<Rightarrow> ('r, 'e) FeedbackActor \<Rightarrow> ('r, 'e) FeedbackActor" where
  "scale_down ceil_times picks now a =
     (scale_down_body ceil_times picks a)
       \<lparr> state := SLEEP, error_queue := [], sleep_start_time := now, last_scaleup_time := now \<rparr>"

text \<open>
  \<^verbatim>\<open>max_clients_to_add = min(num_clients_to_scale_up, gap)\<close> with
  \<^verbatim>\<open>gap = max_error_threshold - total_active_client_count\<close>, which is infinite for an
  infinite threshold.
\<close>

definition max_clients_to_add :: "('r, 'e) FeedbackActor \<Rightarrow> int" where
  "max_clients_to_add a =
     (case max_error_threshold a of
        Finite t \<Rightarrow> min (num_clients_to_scale_up a) (t - total_active_client_count a)
      | Infinity \<Rightarrow> num_clients_to_scale_up a)"

text \<open>Whether the probe fires, when the ceiling is reached.\<close>

definition probe_fires :: "'r::ord \<Rightarrow> ('r, 'e) FeedbackActor \<Rightarrow> bool" where
  "probe_fires rnd a =
     (rnd < probe_probability a \<or> probe_interval a \<le> cycles_since_probe a + 1)"

definition count_probe_cycle :: "('r, 'e) FeedbackActor \<Rightarrow> ('r, 'e) FeedbackActor" where
  "count_probe_cycle a =
     (if probe_interval a \<le> cycles_since_probe a + 1
      then a\<lparr> cycles_since_probe := 0 \<rparr>
      else a\<lparr> cycles_since_probe := cycles_since_probe a + 1 \<rparr>)"

text \<open>The loop over the shuffled inactive clients, with its \<^verbatim>\<open>break\<close>.\<close>

fun activate_clients ::
  "(nat \<times> nat) list \<Rightarrow> int \<Rightarrow> int \<Rightarrow> ('r, 'e) FeedbackActor \<Rightarrow> ('r, 'e) FeedbackActor \<times> int" where
  "activate_clients [] max_add clients_activated a = (a, clients_activated)"
| "activate_clients (wc # rest) max_add clients_activated a =
     (if max_add \<le> clients_activated then (a, clients_activated)
      else activate_clients rest max_add (clients_activated + 1)
             (a\<lparr> shared_client_states := set_client_state (shared_client_states a) wc True,
                 total_active_client_count := total_active_client_count a + 1 \<rparr>))"

definition shuffled_inactive :: "nat list \<Rightarrow> ('r, 'e) FeedbackActor \<Rightarrow> (nat \<times> nat) list" where
  "shuffled_inactive perm a =
     map (\<lambda>i. inactive_clients (shared_client_states a) ! i) perm"

definition scale_up_body ::
  "'r::ord \<Rightarrow> nat list \<Rightarrow> ('r, 'e) FeedbackActor \<Rightarrow> ('r, 'e) FeedbackActor" where
  "scale_up_body rnd perm a =
     (if max_clients_to_add a \<le> 0
      then
        (let a1 = count_probe_cycle a
         in if probe_fires rnd a
            then fst (activate_clients (shuffled_inactive perm a1) 1 0 a1)
            else a1)
      else fst (activate_clients (shuffled_inactive perm a) (max_clients_to_add a) 0 a))"

definition scale_up ::
  "'r::ord \<Rightarrow> nat list \<Rightarrow> 'r \<Rightarrow> ('r, 'e) FeedbackActor \<Rightarrow> ('r, 'e) FeedbackActor" where
  "scale_up rnd perm now a =
     (scale_up_body rnd perm a)\<lparr> last_scaleup_time := now, state := NEUTRAL \<rparr>"

subsection \<open>\<^verbatim>\<open>handle_state\<close>\<close>

text \<open>
  What one wakeup observes: the clock, the error that \<^verbatim>\<open>_check_cpu_usage\<close> would put
  on the queue (if a node is over the threshold), and the random choices and the clock
  reading of a scale-down or scale-up. \<^verbatim>\<open>check_for_errors\<close> drains the queue.
\<close>

record ('r, 'e) wakeup_env =
  w_current_time :: 'r
  w_cpu_error :: "'e option"
  w_picks :: "nat list"
  w_random :: 'r
  w_perm :: "nat list"
  w_now :: 'r

definition cpu_check_due :: "'r::{zero,minus,ord} \<Rightarrow> ('r, 'e) FeedbackActor \<Rightarrow> bool" where
  "cpu_check_due current_time a =
     (truthy (max_cpu_threshold a)
      \<and> (case cpu_check_interval a of
            None \<Rightarrow> False
          | Some i \<Rightarrow> i \<le> current_time - last_cpu_check a))"

definition check_cpu_usage ::
  "'e option \<Rightarrow> ('r, 'e) FeedbackActor \<Rightarrow> ('r, 'e) FeedbackActor" where
  "check_cpu_usage cpu_error a =
     (case cpu_error of None \<Rightarrow> a | Some e \<Rightarrow> a\<lparr> error_queue := error_queue a @ [e] \<rparr>)"

definition handle_state ::
  "(int \<Rightarrow> 'r \<Rightarrow> int) \<Rightarrow> ('r::{zero,one,minus,ord}, 'e) wakeup_env
     \<Rightarrow> ('r, 'e) FeedbackActor \<Rightarrow> ('r, 'e) FeedbackActor" where
  "handle_state ceil_times env a =
     (let current_time = w_current_time env;
          a1 = (if cpu_check_due current_time a
                then (check_cpu_usage (w_cpu_error env) a)\<lparr> last_cpu_check := current_time \<rparr>
                else a);
          errors = error_queue a1;
          a2 = a1\<lparr> error_queue := [] \<rparr>
      in if state a2 = DISABLED then a2
         else if state a2 = SLEEP then
           (if POST_SCALEDOWN_SECONDS a2 \<le> current_time - sleep_start_time a2
            then a2\<lparr> state := NEUTRAL, sleep_start_time := current_time \<rparr>
            else a2)
         else if errors \<noteq> [] then
           (scale_down ceil_times (w_picks env) (w_now env) (a2\<lparr> state := SCALING_DOWN \<rparr>))
             \<lparr> last_error_time := current_time \<rparr>
         else if state a2 = NEUTRAL then
           (let a3 = a2\<lparr> max_stable_clients :=
                            max (max_stable_clients a2) (total_active_client_count a2) \<rparr>
            in if POST_SCALEDOWN_SECONDS a3 \<le> current_time - last_error_time a3
                  \<and> 1 \<le> current_time - last_scaleup_time a3
               then a3\<lparr> state := SCALING_UP \<rparr>
               else a3)
         else if state a2 = SCALING_UP then
           (scale_up (w_random env) (w_perm env) (w_now env) a2)\<lparr> state := NEUTRAL \<rparr>
         else a2)"

text \<open>
  The invariant of the counter: it is the number of entries that are \<^verbatim>\<open>True\<close>.
\<close>

definition counter_invariant :: "('r, 'e) FeedbackActor \<Rightarrow> bool" where
  "counter_invariant a =
     (wf_states (shared_client_states a)
      \<and> total_active_client_count a
          = int (length (all_active_clients (shared_client_states a))))"

section \<open>Progress controllers: theorems\<close>




text \<open>
  C4, as the code has it. For a task that specifies no time period, no warmup time period,
  no iterations and no warmup iterations, and whose runner has no completion signal:
  when the parameter source is infinite the factory builds an \<^verbatim>\<open>IterationBased\<close>
  controller with no warmup and exactly one iteration; when the parameter source is finite
  it builds a \<^verbatim>\<open>TimePeriodBased\<close> controller with no warmup and no time period, which is
  unbounded (the parameter source ends the schedule).
\<close>

theorem schedule_for_unspecified_task:
  assumes "warmup_time_period t = None" and "time_period t = None"
    and "warmup_iterations t = None" and "iterations t = None"
    and "completed r = None"
  shows "(infinite p \<longrightarrow>
           (\<exists>c. schedule_for t r p = Inr (IterationBasedControl c)
                \<and> ib_warmup_iterations c = Some 0 \<and> ib_iterations c = Some 1
                \<and> ib_total_iterations c = Some 1 \<and> \<not> ib_infinite c))
       \<and> (\<not> infinite p \<longrightarrow>
           (\<exists>c. schedule_for t r p = Inr (TimePeriodBasedControl c)
                \<and> tp_warmup_time_period c = Some 0 \<and> tp_time_period c = None
                \<and> tp_infinite c))"
  using assms
  by (auto simp: schedule_for_def requires_time_period_schedule_def IterationBased_init_def
      TimePeriodBased_init_def truthy_def or_zero_def ib_infinite_def tp_infinite_def Let_def)

theorem schedule_for_unspecified_task_witness:
  "(\<exists>c. schedule_for unspecified_task \<lparr>completed = None\<rparr> \<lparr>infinite = True\<rparr>
          = Inr (IterationBasedControl c) \<and> ib_iterations c = Some 1)
   \<and> (\<exists>c. schedule_for unspecified_task \<lparr>completed = None\<rparr> \<lparr>infinite = False\<rparr>
          = Inr (TimePeriodBasedControl c) \<and> tp_time_period c = None)"
proof -
  have a: "(\<exists>c. schedule_for unspecified_task \<lparr>completed = None\<rparr> \<lparr>infinite = True\<rparr>
          = Inr (IterationBasedControl c) \<and> ib_iterations c = Some 1)"
    using schedule_for_unspecified_task
      [of unspecified_task "\<lparr>completed = None\<rparr>" "\<lparr>infinite = True\<rparr>"]
    by (auto simp: unspecified_task_def)
  have b: "(\<exists>c. schedule_for unspecified_task \<lparr>completed = None\<rparr> \<lparr>infinite = False\<rparr>
          = Inr (TimePeriodBasedControl c) \<and> tp_time_period c = None)"
    using schedule_for_unspecified_task
      [of unspecified_task "\<lparr>completed = None\<rparr>" "\<lparr>infinite = False\<rparr>"]
    by (auto simp: unspecified_task_def)
  from a b show ?thesis by blast
qed

text \<open>
  C4 as the specification words it fails on both branches: with an infinite parameter
  source the controller is bounded (one iteration), and with a finite one it is not an
  \<^verbatim>\<open>IterationBased\<close> controller at all.
\<close>

theorem schedule_for_unspecified_task_counterexample:
  "schedule_for unspecified_task \<lparr>completed = None\<rparr> \<lparr>infinite = True\<rparr>
     = Inr (IterationBasedControl
              \<lparr> ib_warmup_iterations = Some 0, ib_iterations = Some 1,
                ib_total_iterations = Some 1, ib_it = None \<rparr>)
   \<and> \<not> ib_infinite \<lparr> ib_warmup_iterations = Some 0, ib_iterations = Some 1,
                       ib_total_iterations = Some 1, ib_it = None \<rparr>
   \<and> schedule_for unspecified_task \<lparr>completed = None\<rparr> \<lparr>infinite = False\<rparr>
     = Inr (TimePeriodBasedControl
              \<lparr> tp_warmup_time_period = Some 0, tp_time_period = None,
                tp_duration = None, tp_start = None, tp_now = None \<rparr>)"
  by (simp add: schedule_for_def requires_time_period_schedule_def IterationBased_init_def
      TimePeriodBased_init_def truthy_def or_zero_def ib_infinite_def unspecified_task_def Let_def)

section \<open>The asynchronous executor: theorems\<close>

lemma execute_single_disabled:
  "execute_single runner params oe re False
     = ([], Inr (0, ''ops'', [(''success'', MBool True), (''skipped_request'', MBool True)]))"
  by (simp add: execute_single_def)

lemma report_error_fields:
  "\<exists>q. report_error ex info = ex\<lparr>ex_error_queue := q\<rparr>"
proof (cases "ex_error_queue ex")
  case None
  then have "report_error ex info = ex\<lparr>ex_error_queue := ex_error_queue ex\<rparr>"
    by (simp add: report_error_def)
  then show ?thesis by blast
next
  case (Some q)
  then have "report_error ex info = ex\<lparr>ex_error_queue := Some (put_nowait_or_drop q info)\<rparr>"
    by (simp add: report_error_def)
  then show ?thesis by blast
qed

lemma execute_request_state:
  assumes "execute_request ex runner params est ts cs env = Inr (rd, ex1)"
  shows "\<exists>n t u m q.
           rd = result_of env t u m (0 < est)
         \<and> ex1 = ex\<lparr>ex_runner_calls := n, ex_error_queue := q\<rparr>"
proof -
  obtain calls outcome where ro: "request_outcome ex runner params cs env = (calls, outcome)"
    by (cases "request_outcome ex runner params cs env")
  from assms ro obtain t u m where o: "outcome = Inr (t, u, m)"
    by (cases outcome) (auto simp: execute_request_def Let_def)
  let ?e = "ex\<lparr>ex_runner_calls := ex_runner_calls ex + length calls\<rparr>"
  let ?i = "\<lparr> ei_client_id = ex_client_id ex, ei_task = ex_task ex, ei_error_details = m \<rparr>"
  from assms ro o have rd: "rd = result_of env t u m (0 < est)"
    by (simp add: execute_request_def Let_def)
  from assms ro o have "ex1 = ?e \<or> ex1 = report_error ?e ?i"
    by (simp add: execute_request_def Let_def split: if_splits)
  then have "\<exists>q. ex1 = ?e\<lparr>ex_error_queue := q\<rparr>"
  proof
    assume "ex1 = ?e"
    then have "ex1 = ?e\<lparr>ex_error_queue := ex_error_queue ex\<rparr>" by simp
    then show ?thesis by blast
  next
    assume "ex1 = report_error ?e ?i"
    then show ?thesis using report_error_fields [of ?e ?i] by simp
  qed
  with rd show ?thesis by blast
qed

lemma sampler_add_items:
  assumes "\<not> (0 < q_maxsize (ex_sampler ex) \<and> q_maxsize (ex_sampler ex) \<le> length (q_items (ex_sampler ex)))"
  shows "q_items (ex_sampler (sampler_add ex s)) = q_items (ex_sampler ex) @ [s]"
  using assms by (simp add: sampler_add_def put_nowait_or_drop_def)

text \<open>
  C6. For a request of an active client that is not a skipped one, and whose sample the
  sampler has room for, one iteration of the executor appends one sample whose
  \<^verbatim>\<open>service_time\<close> is \<^verbatim>\<open>request_end - request_start\<close>, whose
  \<^verbatim>\<open>client_processing_time\<close> is
  \<^verbatim>\<open>(client_request_end - client_request_start) - service_time\<close>, whose
  \<^verbatim>\<open>processing_time\<close> is \<^verbatim>\<open>processing_end - processing_start\<close>, and whose
  \<^verbatim>\<open>latency\<close> is \<^verbatim>\<open>request_end - (total_start + expected_scheduled_time)\<close> when the
  scheduled offset is positive and the service time otherwise. The timings are those of
  the request's result data: what the request context captured, or the fallback readings.
  The operations are Python's own on the values at hand (the number type is abstract).
\<close>

theorem iteration_sample_timings:
  assumes cs: "client_state_of ex"
    and rd: "execute_request (ex\<lparr>ex_expected_scheduled_time := est, ex_sample_type := st\<rparr>)
               runner params est total_start True env = Inr (rd, ex1)"
    and ns: "\<not> meta_truthy (rd_request_meta_data rd) ''skipped_request''"
    and room: "\<not> (0 < q_maxsize (ex_sampler ex)
                  \<and> q_maxsize (ex_sampler ex) \<le> length (q_items (ex_sampler ex)))"
  shows "\<exists>completed ex' s.
      iteration ex runner params est st pc False total_start env = Inr (completed, ex')
    \<and> q_items (ex_sampler ex') = q_items (ex_sampler ex) @ [s]
    \<and> s_service_time s = rd_request_end rd - rd_request_start rd
    \<and> s_client_processing_time s
        = (rd_client_request_end rd - rd_client_request_start rd) - s_service_time s
    \<and> s_processing_time s = rd_processing_end rd - rd_processing_start rd
    \<and> s_latency s = (if 0 < est then rd_request_end rd - (total_start + est)
                      else s_service_time s)
    \<and> rd_request_start rd = or_else (env_request_start env) (env_processing_start env)
    \<and> rd_request_end rd = or_else (env_request_end env) (env_now env)
    \<and> rd_client_request_start rd
        = or_else (env_client_request_start env) (env_processing_start env)
    \<and> rd_client_request_end rd = or_else (env_client_request_end env) (env_now env)
    \<and> rd_processing_start rd = env_processing_start env
    \<and> rd_processing_end rd = env_processing_end env"
proof -
  let ?ex0 = "ex\<lparr>ex_expected_scheduled_time := est, ex_sample_type := st\<rparr>"
  from execute_request_state [OF rd] obtain n t u m q where
    rdv: "rd = result_of env t u m (0 < est)" and
    ex1: "ex1 = ?ex0\<lparr>ex_runner_calls := n, ex_error_queue := q\<rparr>"
    by blast
  let ?ex2 = "after_request ex1 (rd_processing_end rd) (rd_total_ops rd)
                (rd_total_ops_unit rd) (rd_request_meta_data rd)"
  let ?s = "default_sample ex1 rd total_start pc"
  have cs0: "client_state_of ?ex0"
    using cs by (simp add: client_state_of_def split: option.splits)
  have it: "iteration ex runner params est st pc False total_start env
              = Inr (is_completed ex1, sampler_add ?ex2 ?s)"
    using cs0 rd ns by (simp add: iteration_def Let_def process_results_def)
  have samp: "ex_sampler ?ex2 = ex_sampler ex"
    using ex1 by (simp add: after_request_def)
  have items: "q_items (ex_sampler (sampler_add ?ex2 ?s)) = q_items (ex_sampler ex) @ [?s]"
    using sampler_add_items [of ?ex2 ?s] room samp by simp
  have est1: "ex_expected_scheduled_time ex1 = est" using ex1 by simp
  have thr: "rd_throughput_throttled rd = (0 < est)" using rdv by (simp add: result_of_def)
  have f1: "s_service_time ?s = rd_request_end rd - rd_request_start rd"
    by (simp add: default_sample_def service_time_def)
  have f2: "s_client_processing_time ?s
        = (rd_client_request_end rd - rd_client_request_start rd) - s_service_time ?s"
    by (simp add: default_sample_def client_processing_time_def)
  have f3: "s_processing_time ?s = rd_processing_end rd - rd_processing_start rd"
    by (simp add: default_sample_def processing_time_def)
  have f4: "s_latency ?s = (if 0 < est then rd_request_end rd - (total_start + est)
                      else s_service_time ?s)"
    using est1 thr by (simp add: default_sample_def latency_def)
  have g: "rd_request_start rd = or_else (env_request_start env) (env_processing_start env)
    \<and> rd_request_end rd = or_else (env_request_end env) (env_now env)
    \<and> rd_client_request_start rd
        = or_else (env_client_request_start env) (env_processing_start env)
    \<and> rd_client_request_end rd = or_else (env_client_request_end env) (env_now env)
    \<and> rd_processing_start rd = env_processing_start env
    \<and> rd_processing_end rd = env_processing_end env"
    using rdv by (simp add: result_of_def)
  from it items f1 f2 f3 f4 g show ?thesis by blast
qed


theorem iteration_sample_timings_witness:
  "\<exists>completed ex' s.
      iteration demo_executor demo_runner () 2 Normal None False 10 demo_env
        = Inr (completed, ex')
    \<and> q_items (ex_sampler ex') = [s]
    \<and> s_service_time s = 2 \<and> s_client_processing_time s = 2
    \<and> s_processing_time s = 6 \<and> s_latency s = 3"
proof -
  let ?rd = "result_of demo_env 1 ''ops'' [(''success'', MBool True)] True"
  let ?ex0 = "demo_executor\<lparr>ex_expected_scheduled_time := 2, ex_sample_type := Normal\<rparr>"
  have h1: "client_state_of demo_executor"
    by (simp add: client_state_of_def demo_executor_def)
  have ro: "request_outcome ?ex0 demo_runner () True demo_env
              = ([()], Inr (1, ''ops'', [(''success'', MBool True)]))"
    by (simp add: request_outcome_def execute_single_def check_success_def meta_truthy_def
        demo_runner_def demo_env_def)
  have nf: "\<not> needs_fallback demo_env [(''success'', MBool True)]"
    by (simp add: needs_fallback_def meta_truthy_def demo_env_def)
  have h2: "execute_request ?ex0 demo_runner () 2 10 True demo_env
              = Inr (?rd, ?ex0\<lparr>ex_runner_calls := ex_runner_calls ?ex0 + length [()]\<rparr>)"
    using ro nf by (simp add: execute_request_def)
  have h3: "\<not> meta_truthy (rd_request_meta_data ?rd) ''skipped_request''"
    by (simp add: result_of_def meta_truthy_def)
  have h4: "\<not> (0 < q_maxsize (ex_sampler demo_executor)
                \<and> q_maxsize (ex_sampler demo_executor)
                    \<le> length (q_items (ex_sampler demo_executor)))"
    by (simp add: demo_executor_def)
  from iteration_sample_timings [OF h1 h2 h3 h4, of None]
  obtain completed ex' s where
    it: "iteration demo_executor demo_runner () 2 Normal None False 10 demo_env
           = Inr (completed, ex')" and
    items: "q_items (ex_sampler ex') = q_items (ex_sampler demo_executor) @ [s]" and
    f1: "s_service_time s = rd_request_end ?rd - rd_request_start ?rd" and
    f2: "s_client_processing_time s
           = (rd_client_request_end ?rd - rd_client_request_start ?rd) - s_service_time s" and
    f3: "s_processing_time s = rd_processing_end ?rd - rd_processing_start ?rd" and
    f4: "s_latency s = (if (0::int) < 2 then rd_request_end ?rd - (10 + 2)
                        else s_service_time s)"
    by blast
  have v: "rd_request_end ?rd = 15" "rd_request_start ?rd = 13"
    "rd_client_request_end ?rd = 16" "rd_client_request_start ?rd = 12"
    "rd_processing_end ?rd = 17" "rd_processing_start ?rd = 11"
    by (simp_all add: result_of_def demo_env_def or_else_def)
  have i: "q_items (ex_sampler ex') = [s]" using items by (simp add: demo_executor_def)
  from f1 v have g1: "s_service_time s = 2" by simp
  from f2 v g1 have g2: "s_client_processing_time s = 2" by simp
  from f3 v have g3: "s_processing_time s = 6" by simp
  from f4 v have g4: "s_latency s = 3" by simp
  from it i g1 g2 g3 g4 show ?thesis by blast
qed

lemma client_state_of_update:
  "client_state_of (ex\<lparr>ex_expected_scheduled_time := a, ex_sample_type := b\<rparr>)
     = client_state_of ex"
  by (cases "ex_shared_states ex") (simp_all add: client_state_of_def)

lemma request_outcome_disabled:
  "request_outcome ex runner params False env
     = ([], if env_timed_out env
            then Inr (0, ''ops'', [(''success'', MBool False), (''error-type'', MStr ''timeout'')])
            else Inr (0, ''ops'', [(''success'', MBool True), (''skipped_request'', MBool True)]))"
  by (simp add: request_outcome_def execute_single_disabled)

lemma execute_request_outcome:
  assumes "request_outcome ex runner params cs env = ([], Inr (t, u, m))"
  shows "\<exists>q. execute_request ex runner params est ts cs env
               = Inr (result_of env t u m (0 < est), ex\<lparr>ex_error_queue := q\<rparr>)"
proof -
  let ?i = "\<lparr> ei_client_id = ex_client_id ex, ei_task = ex_task ex, ei_error_details = m \<rparr>"
  show ?thesis
  proof (cases "needs_fallback env m \<and> \<not> meta_truthy m ''skipped''")
    case True
    then have "execute_request ex runner params est ts cs env
               = Inr (result_of env t u m (0 < est), report_error ex ?i)"
      using assms by (simp add: execute_request_def)
    then show ?thesis using report_error_fields [of ex ?i] by auto
  next
    case False
    then have "(if needs_fallback env m \<and> \<not> meta_truthy m ''skipped''
                then report_error ex ?i else ex) = ex"
      by (rule if_not_P)
    then have "execute_request ex runner params est ts cs env
               = Inr (result_of env t u m (0 < est), ex\<lparr>ex_error_queue := ex_error_queue ex\<rparr>)"
      using assms by (simp add: execute_request_def)
    then show ?thesis by blast
  qed
qed

lemma execute_request_disabled:
  "\<exists>q. execute_request ex runner params est ts False env
     = Inr (result_of env 0 ''ops''
              (if env_timed_out env
               then [(''success'', MBool False), (''error-type'', MStr ''timeout'')]
               else [(''success'', MBool True), (''skipped_request'', MBool True)])
              (0 < est),
            ex\<lparr>ex_error_queue := q\<rparr>)"
proof (cases "env_timed_out env")
  case True
  then have "request_outcome ex runner params False env
     = ([], Inr (0, ''ops'', [(''success'', MBool False), (''error-type'', MStr ''timeout'')]))"
    by (simp add: request_outcome_disabled)
  from execute_request_outcome [OF this, of est ts] True show ?thesis by simp
next
  case False
  then have "request_outcome ex runner params False env
     = ([], Inr (0, ''ops'', [(''success'', MBool True), (''skipped_request'', MBool True)]))"
    by (simp add: request_outcome_disabled)
  from execute_request_outcome [OF this, of est ts] False show ?thesis by simp
qed

text \<open>
  C7, as the code has it. For a scheduled request of a client whose shared pause state is
  false, \<^verbatim>\<open>execute_single\<close> does not call the runner and returns
  \<^verbatim>\<open>(0, "ops", {success: True, skipped_request: True})\<close>, a value without timings; the
  iteration then adds no sample to the sampler and none to the profile sampler. Unless
  the request timed out, all it does with the result is to call the scheduler's
  \<^verbatim>\<open>after_request\<close> with \<^verbatim>\<open>(processing_end, 0, "ops", {success: False, skipped: True})\<close>
  and to return the parent-complete flag.
\<close>

theorem paused_client_is_skipped:
  assumes paused: "\<not> client_state_of ex"
  shows "execute_single runner params (ex_on_error ex) (ex_redline_enabled ex) False
           = ([], Inr (0, ''ops'',
                       [(''success'', MBool True), (''skipped_request'', MBool True)]))
       \<and> (\<exists>completed ex'.
             iteration ex runner params est st pc apm total_start env = Inr (completed, ex')
           \<and> ex_runner_calls ex' = ex_runner_calls ex
           \<and> ex_sampler ex' = ex_sampler ex
           \<and> ex_profile_sampler ex' = ex_profile_sampler ex
           \<and> (\<not> env_timed_out env \<longrightarrow>
                completed = ex_complete ex
              \<and> ex_after_requests ex'
                  = ex_after_requests ex
                    @ [(env_processing_end env, 0, ''ops'',
                        [(''success'', MBool False), (''skipped'', MBool True)])]))"
proof
  show "execute_single runner params (ex_on_error ex) (ex_redline_enabled ex) False
           = ([], Inr (0, ''ops'',
                       [(''success'', MBool True), (''skipped_request'', MBool True)]))"
    by (rule execute_single_disabled)
next
  let ?ex0 = "ex\<lparr>ex_expected_scheduled_time := est, ex_sample_type := st\<rparr>"
  let ?m = "if env_timed_out env
               then [(''success'', MBool False), (''error-type'', MStr ''timeout'')]
               else [(''success'', MBool True), (''skipped_request'', MBool True)]"
  let ?rd = "result_of env 0 ''ops'' ?m (0 < est)"
  have cs0: "\<not> client_state_of ?ex0"
    using paused by (simp add: client_state_of_update)
  obtain q where er: "execute_request ?ex0 runner params est total_start False env
                        = Inr (?rd, ?ex0\<lparr>ex_error_queue := q\<rparr>)"
    using execute_request_disabled [of ?ex0 runner params est total_start env] by blast
  let ?ex1 = "?ex0\<lparr>ex_error_queue := q\<rparr>"
  let ?res = "process_results ?ex1 ?rd total_start False pc apm"
  have it: "iteration ex runner params est st pc apm total_start env = Inr (fst ?res, snd ?res)"
    using cs0 er by (simp add: iteration_def Let_def)
  have keep: "ex_runner_calls (snd ?res) = ex_runner_calls ex
           \<and> ex_sampler (snd ?res) = ex_sampler ex
           \<and> ex_profile_sampler (snd ?res) = ex_profile_sampler ex"
    by (simp add: process_results_def after_request_def Let_def)
  have nt: "\<not> env_timed_out env \<longrightarrow>
                fst ?res = ex_complete ex
              \<and> ex_after_requests (snd ?res)
                  = ex_after_requests ex
                    @ [(env_processing_end env, 0, ''ops'',
                        [(''success'', MBool False), (''skipped'', MBool True)])]"
    by (simp add: process_results_def after_request_def result_of_def meta_truthy_def)
  from it keep nt show "\<exists>completed ex'.
             iteration ex runner params est st pc apm total_start env = Inr (completed, ex')
           \<and> ex_runner_calls ex' = ex_runner_calls ex
           \<and> ex_sampler ex' = ex_sampler ex
           \<and> ex_profile_sampler ex' = ex_profile_sampler ex
           \<and> (\<not> env_timed_out env \<longrightarrow>
                completed = ex_complete ex
              \<and> ex_after_requests ex'
                  = ex_after_requests ex
                    @ [(env_processing_end env, 0, ''ops'',
                        [(''success'', MBool False), (''skipped'', MBool True)])])"
    by blast
qed

theorem paused_client_is_skipped_witness:
  "\<exists>completed ex'.
      iteration paused_executor demo_runner () 0 Normal None False 10 demo_env
        = Inr (completed, ex')
    \<and> ex_runner_calls ex' = 0
    \<and> q_items (ex_sampler ex') = []
    \<and> q_items (ex_profile_sampler ex') = []
    \<and> completed = False
    \<and> ex_after_requests ex'
        = [(17, 0, ''ops'', [(''success'', MBool False), (''skipped'', MBool True)])]"
proof -
  have p: "\<not> client_state_of paused_executor"
    by (simp add: client_state_of_def paused_executor_def demo_executor_def)
  have nt: "\<not> env_timed_out demo_env" by (simp add: demo_env_def)
  from paused_client_is_skipped [OF p, of demo_runner "()" 0 Normal None False 10 demo_env] nt
  obtain completed ex' where
    it: "iteration paused_executor demo_runner () 0 Normal None False 10 demo_env
           = Inr (completed, ex')" and
    c: "ex_runner_calls ex' = ex_runner_calls paused_executor" and
    s: "ex_sampler ex' = ex_sampler paused_executor" and
    ps: "ex_profile_sampler ex' = ex_profile_sampler paused_executor" and
    co: "completed = ex_complete paused_executor" and
    ar: "ex_after_requests ex'
           = ex_after_requests paused_executor
             @ [(env_processing_end demo_env, 0, ''ops'',
                 [(''success'', MBool False), (''skipped'', MBool True)])]"
    by blast
  from c have c': "ex_runner_calls ex' = 0"
    by (simp add: paused_executor_def demo_executor_def)
  from s have s': "q_items (ex_sampler ex') = []"
    by (simp add: paused_executor_def demo_executor_def)
  from ps have ps': "q_items (ex_profile_sampler ex') = []"
    by (simp add: paused_executor_def demo_executor_def)
  from co have co': "completed = False"
    by (simp add: paused_executor_def demo_executor_def)
  from ar have ar': "ex_after_requests ex'
        = [(17, 0, ''ops'', [(''success'', MBool False), (''skipped'', MBool True)])]"
    by (simp add: paused_executor_def demo_executor_def demo_env_def)
  from it c' s' ps' co' ar' show ?thesis by blast
qed

text \<open>
  C7 as the specification words it fails: for the paused client 0 no sample is emitted,
  so in particular none with the meta-data \<^verbatim>\<open>{success: True, skipped_request: True}\<close>.
  Both sampler queues of the executor are empty before the iteration, and the state after
  it differs from the state before only in the logged \<^verbatim>\<open>after_request\<close> call.
\<close>

theorem paused_client_is_skipped_counterexample:
  "iteration paused_executor demo_runner () 0 Normal None False 10 demo_env
     = Inr (False,
            paused_executor
              \<lparr>ex_after_requests :=
                 [(17, 0, ''ops'', [(''success'', MBool False), (''skipped'', MBool True)])]\<rparr>)
   \<and> q_items (ex_sampler paused_executor) = []
   \<and> q_items (ex_profile_sampler paused_executor) = []"
  by (simp add: iteration_def execute_request_def request_outcome_def execute_single_def
      needs_fallback_def meta_truthy_def process_results_def after_request_def result_of_def
      client_state_of_def paused_executor_def demo_executor_def demo_env_def or_else_def)


end
